theory Spec2Isabelle
  imports Complex_Main "HOL-Library.Sublist" "HOL-Library.Log_Nat"
begin

section \<open>Text primitives of the Python runtime\<close>

text \<open>
  The analyzer of \<^verbatim>\<open>app.py\<close> works on Python strings. A text is modelled as a
  \<^typ>\<open>string\<close> of ASCII characters: \<^verbatim>\<open>str.lower\<close> folds the letters A..Z,
  \<^verbatim>\<open>str.strip\<close> removes the ASCII whitespace characters, and the regular expression
  class \<^verbatim>\<open>\w\<close> is letters, digits and the underscore. Characters outside ASCII are
  left alone by all three. Python floats are idealised as rationals, so that the
  thresholds 0.3, 0.15, 0.05 and the factor 0.1 are the exact fractions.
\<close>

definition lower_char :: "char \<Rightarrow> char" where
  "lower_char c =
     (case map_of (zip ''ABCDEFGHIJKLMNOPQRSTUVWXYZ'' ''abcdefghijklmnopqrstuvwxyz'') c of
        Some l \<Rightarrow> l
      | None \<Rightarrow> c)"

text \<open>\<^verbatim>\<open>text.lower()\<close>\<close>

definition lower :: "string \<Rightarrow> string" where
  "lower s = map lower_char s"

text \<open>
  The characters \<^verbatim>\<open>str.strip()\<close> removes: tab, line feed, vertical tab, form feed,
  carriage return, the four separators 0x1C..0x1F and the space.
\<close>

definition is_space :: "char \<Rightarrow> bool" where
  "is_space c \<longleftrightarrow>
     c \<in> set [CHR 0x09, CHR 0x0A, CHR 0x0B, CHR 0x0C, CHR 0x0D,
               CHR 0x1C, CHR 0x1D, CHR 0x1E, CHR 0x1F, CHR '' '']"

text \<open>\<^verbatim>\<open>s.strip()\<close>\<close>

definition strip :: "string \<Rightarrow> string" where
  "strip s = rev (dropWhile is_space (rev (dropWhile is_space s)))"

text \<open>\<^verbatim>\<open>k in s\<close> on strings: \<open>k\<close> occurs in \<open>s\<close> as a contiguous substring.\<close>

fun contains :: "'c list \<Rightarrow> 'c list \<Rightarrow> bool" where
  "contains k [] = (k = [])"
| "contains k (c # cs) = (prefix k (c # cs) \<or> contains k cs)"

section \<open>The keyword lists of \<^verbatim>\<open>MentalHealthAnalyzer.__init__\<close>\<close>

definition depression_keywords :: "string list" where
  "depression_keywords =
     [''depressed'', ''sad'', ''hopeless'', ''worthless'', ''empty'', ''numb'',
      ''lonely'', ''isolated'', ''tired'', ''exhausted'', ''sleep'', ''insomnia'',
      ''cry'', ''crying'', ''tears'', ''suicide'', ''kill myself'', ''end it all'',
      ''no point'', ''give up'', ''can'' @ [CHR 0x27] @ ''t go on'', ''hate myself'', ''failure'',
      ''disappointed'', ''regret'', ''guilty'', ''shame'', ''burden'']"

definition anxiety_keywords :: "string list" where
  "anxiety_keywords =
     [''anxious'', ''worried'', ''nervous'', ''panic'', ''fear'', ''scared'',
      ''overwhelmed'', ''stressed'', ''tension'', ''restless'', ''uneasy'',
      ''paranoid'', ''worried'', ''concern'', ''afraid'', ''terrified'',
      ''heart racing'', ''can'' @ [CHR 0x27] @ ''t breathe'', ''sweating'', ''trembling'',
      ''what if'', ''catastrophe'', ''disaster'', ''danger'']"

definition stress_keywords :: "string list" where
  "stress_keywords =
     [''stress'', ''pressure'', ''overwhelmed'', ''burden'', ''too much'',
      ''can'' @ [CHR 0x27] @ ''t handle'', ''breaking point'', ''exhausted'', ''burned out'',
      ''deadline'', ''rushed'', ''hurry'', ''chaos'', ''hectic'', ''frantic'',
      ''struggling'', ''difficult'', ''hard'', ''challenging'', ''demanding'']"

definition positive_keywords :: "string list" where
  "positive_keywords =
     [''happy'', ''joy'', ''excited'', ''grateful'', ''blessed'', ''amazing'',
      ''wonderful'', ''great'', ''fantastic'', ''love'', ''peaceful'', ''calm'',
      ''relaxed'', ''confident'', ''proud'', ''accomplished'', ''successful'',
      ''optimistic'', ''hopeful'', ''content'', ''satisfied'', ''fulfilled'']"

section \<open>The external collaborators\<close>

text \<open>
  NLTK's \<^verbatim>\<open>sent_tokenize\<close> and \<^verbatim>\<open>word_tokenize\<close>, VADER's
  \<^verbatim>\<open>polarity_scores\<close> and the clock are not part of the repository. They are
  parameters of the model. Each of the three library calls may raise (the tokenizer data
  may be missing, as \<^verbatim>\<open>download_nltk_data\<close> expects): a call that raises returns
  \<open>None\<close>.
\<close>

record sentiment_scores =
  compound :: rat
  neg :: rat
  neu :: rat
  pos :: rat

record 'c nltk_env =
  sent_tokenize :: "'c list \<Rightarrow> 'c list list option"
  word_tokenize :: "'c list \<Rightarrow> 'c list list option"
  polarity_scores :: "'c list \<Rightarrow> sentiment_scores option"
  now :: string

section \<open>\<^verbatim>\<open>safe_tokenize\<close>\<close>

definition is_terminator :: "char \<Rightarrow> bool" where
  "is_terminator c \<longleftrightarrow> c \<in> set ''.!?''"

definition is_word_char :: "char \<Rightarrow> bool" where
  "is_word_char c \<longleftrightarrow>
     c \<in> set ''abcdefghijklmnopqrstuvwxyzABCDEFGHIJKLMNOPQRSTUVWXYZ0123456789_''"

text \<open>
  \<^verbatim>\<open>re.split(r'[.!?]+', s)\<close>: the pieces between maximal runs of terminators; a
  terminator at either end of the text leaves an empty piece there.
\<close>

fun re_split_terminators :: "string \<Rightarrow> string list" where
  "re_split_terminators [] = [[]]"
| "re_split_terminators (c # cs) =
     (if is_terminator c then
        (case cs of
           [] \<Rightarrow> [[], []]
         | c' # _ \<Rightarrow> if is_terminator c' then re_split_terminators cs
                     else [] # re_split_terminators cs)
      else
        (case re_split_terminators cs of
           [] \<Rightarrow> [[c]]
         | p # ps \<Rightarrow> (c # p) # ps))"

text \<open>\<^verbatim>\<open>re.findall(r'\b\w+\b', s)\<close>: the maximal runs of word characters.\<close>

fun re_findall_words :: "string \<Rightarrow> string list" where
  "re_findall_words [] = []"
| "re_findall_words (c # cs) =
     (if is_word_char c then
        (case cs of
           [] \<Rightarrow> [[c]]
         | c' # _ \<Rightarrow>
             if is_word_char c' then
               (case re_findall_words cs of [] \<Rightarrow> [[c]] | w # ws \<Rightarrow> (c # w) # ws)
             else [c] # re_findall_words cs)
      else re_findall_words cs)"

text \<open>
  The \<^verbatim>\<open>try\<close> block runs both NLTK tokenizers on the lowercased text; if either
  raises, the bare \<^verbatim>\<open>except\<close> recomputes both results with the regular expressions.
\<close>

definition safe_tokenize :: "char nltk_env \<Rightarrow> string \<Rightarrow> string list \<times> string list" where
  "safe_tokenize env text =
     (case (sent_tokenize env (lower text), word_tokenize env (lower text)) of
        (Some sentences, Some words) \<Rightarrow> (sentences, words)
      | _ \<Rightarrow>
          (let sentences = re_split_terminators (lower text);
               sentences = [strip s. s \<leftarrow> sentences, strip s \<noteq> []];
               words = re_findall_words (lower text)
           in (sentences, words)))"

section \<open>\<^verbatim>\<open>find_concerning_phrases\<close>\<close>

record 'c concerning_phrase =
  phrase :: "'c list"
  type :: string
  keyword :: "'c list"

text \<open>
  One of the three inner loops: the keywords of a category are tried in list order, and
  the \<^verbatim>\<open>break\<close> leaves the loop at the first keyword found in the sentence.
\<close>

fun first_keyword :: "'c list list \<Rightarrow> 'c list \<Rightarrow> 'c list option" where
  "first_keyword [] sentence_lower = None"
| "first_keyword (kw # keywords) sentence_lower =
     (if contains kw sentence_lower then Some kw
      else first_keyword keywords sentence_lower)"

definition check_category ::
  "string \<Rightarrow> string list \<Rightarrow> string \<Rightarrow> char concerning_phrase list" where
  "check_category category keywords sentence =
     (case first_keyword keywords (lower sentence) of
        None \<Rightarrow> []
      | Some k \<Rightarrow> [\<lparr>phrase = strip sentence, type = category, keyword = k\<rparr>])"

text \<open>
  The body of the loop over the sentences: the three category loops run one after the
  other, each appending to \<^verbatim>\<open>phrases\<close>.
\<close>

definition sentence_phrases :: "string \<Rightarrow> char concerning_phrase list" where
  "sentence_phrases sentence =
     check_category ''depression'' depression_keywords sentence
     @ check_category ''anxiety'' anxiety_keywords sentence
     @ check_category ''stress'' stress_keywords sentence"

datatype error = TokenizerError

text \<open>
  \<^verbatim>\<open>sent_tokenize(text)\<close> is called on the original text and outside any
  \<^verbatim>\<open>try\<close>: when it raises, so does \<^verbatim>\<open>find_concerning_phrases\<close>.
\<close>

definition find_concerning_phrases ::
  "char nltk_env \<Rightarrow> string \<Rightarrow> error + char concerning_phrase list" where
  "find_concerning_phrases env text =
     (case sent_tokenize env text of
        None \<Rightarrow> Inl TokenizerError
      | Some sentences \<Rightarrow> Inr (concat (map sentence_phrases sentences)))"

section \<open>\<^verbatim>\<open>get_overall_assessment\<close>\<close>

definition get_overall_assessment :: "rat \<Rightarrow> rat \<Rightarrow> string" where
  "get_overall_assessment negative_score positive_score =
     (if negative_score \<ge> 3 / 10 then
        (if positive_score \<ge> 2 / 10 then
           ''Mixed emotions with significant concerns - consider professional support''
         else
           ''High concern detected - strongly recommend professional help'')
      else if negative_score \<ge> 15 / 100 then
        (if positive_score \<ge> 3 / 10 then
           ''Moderate concerns with positive elements - monitor closely''
         else
           ''Moderate concern - consider speaking with someone'')
      else if negative_score \<ge> 5 / 100 then
        ''Mild concerns detected - practice self-care''
      else
        (if positive_score \<ge> 2 / 10 then
           ''Positive mental state - keep up the good work!''
         else
           ''Neutral state - maintain healthy habits''))"

section \<open>\<^verbatim>\<open>analyze_text\<close>\<close>

record category_result =
  score :: rat
  severity :: string
  count :: nat

record 'c analysis_record =
  timestamp :: string
  text_field :: "'c list"
  sentiment :: sentiment_scores
  depression :: category_result
  anxiety :: category_result
  stress :: category_result
  positive :: category_result
  highlighted_phrases :: "'c concerning_phrase list"
  overall_assessment :: string
  overall_score :: rat

text \<open>\<^verbatim>\<open>sum(1 for word in keywords if word in text.lower())\<close>\<close>

definition keyword_count :: "string list \<Rightarrow> string \<Rightarrow> nat" where
  "keyword_count keywords text = sum_list [1. word \<leftarrow> keywords, contains word (lower text)]"

text \<open>\<^verbatim>\<open>min(count / max(total_words * 0.1, 1), 1)\<close>\<close>

definition severity_score :: "nat \<Rightarrow> nat \<Rightarrow> rat" where
  "severity_score cnt total_words =
     min (of_nat cnt / max (of_nat total_words * (1 / 10)) 1) 1"

definition get_severity :: "rat \<Rightarrow> string" where
  "get_severity s =
     (if s \<ge> 3 / 10 then ''High''
      else if s \<ge> 15 / 100 then ''Moderate''
      else if s \<ge> 5 / 100 then ''Mild''
      else ''Low'')"

definition neutral_sentiment :: sentiment_scores where
  "neutral_sentiment = \<lparr>compound = 0, neg = 0, neu = 1, pos = 0\<rparr>"

text \<open>
  The result is \<open>Inr None\<close> for the \<^verbatim>\<open>return None\<close> of blank input,
  \<open>Inr (Some r)\<close> for a returned record and \<open>Inl e\<close> when an exception leaves the
  method.
\<close>

definition analyze_text ::
  "char nltk_env \<Rightarrow> string \<Rightarrow> error + char analysis_record option" where
  "analyze_text env text =
     (if strip text = [] then Inr None
      else
        let sentiment_scores =
              (case polarity_scores env text of Some s \<Rightarrow> s | None \<Rightarrow> neutral_sentiment);
            (sentences, words) = safe_tokenize env text;
            depression_count = keyword_count depression_keywords text;
            anxiety_count = keyword_count anxiety_keywords text;
            stress_count = keyword_count stress_keywords text;
            positive_count = keyword_count positive_keywords text;
            total_words = length words;
            depression_score = severity_score depression_count total_words;
            anxiety_score = severity_score anxiety_count total_words;
            stress_score = severity_score stress_count total_words;
            positive_score = severity_score positive_count total_words
        in
          (case find_concerning_phrases env text of
             Inl e \<Rightarrow> Inl e
           | Inr phrases \<Rightarrow>
               let overall = (depression_score + anxiety_score + stress_score) / 3;
                   assessment = get_overall_assessment overall positive_score
               in Inr (Some
                    \<lparr>timestamp = now env,
                     text_field = text,
                     sentiment = sentiment_scores,
                     depression = \<lparr>score = depression_score,
                                   severity = get_severity depression_score,
                                   count = depression_count\<rparr>,
                     anxiety = \<lparr>score = anxiety_score,
                                severity = get_severity anxiety_score,
                                count = anxiety_count\<rparr>,
                     stress = \<lparr>score = stress_score,
                               severity = get_severity stress_score,
                               count = stress_count\<rparr>,
                     positive = \<lparr>score = positive_score,
                                 severity = get_severity positive_score,
                                 count = positive_count\<rparr>,
                     highlighted_phrases = phrases,
                     overall_assessment = assessment,
                     overall_score = overall\<rparr>)))"

section \<open>The analysis history kept by \<^verbatim>\<open>main\<close>\<close>

text \<open>
  \<^verbatim>\<open>st.session_state.analysis_history\<close> starts empty. The Analyze button appends the
  record of a non-blank text when \<^verbatim>\<open>analyze_text\<close> returns one (an exception ends the
  script run and leaves the list as it was); Clear History and Logout empty the list.
\<close>

datatype 'c event = AnalyzeText "'c nltk_env" "'c list" | ClearHistory | Logout



section \<open>The analyzer over the Python runtime\<close>

text \<open>
  The definitions above fix the runtime to ASCII text and exact arithmetic. Python's
  \<^verbatim>\<open>str\<close> holds Unicode code points, \<^verbatim>\<open>str.lower\<close>,
  \<^verbatim>\<open>str.strip\<close> and the class \<^verbatim>\<open>\w\<close> follow the Unicode tables of the
  interpreter, and the scores are IEEE doubles. The tables are not part of the
  repository, so the definitions of this section take them as parameters: a text is a
  list over any type \<open>'c\<close> of characters, \<open>str_lower\<close> is \<^verbatim>\<open>str.lower\<close> on whole
  strings (it may change the length and look at the context), \<open>isspace\<close> says which
  characters \<^verbatim>\<open>strip\<close> removes, \<open>word_char\<close> is \<^verbatim>\<open>\w\<close>, \<open>chr\<close> gives the
  character of an ASCII character of a string literal of the source, and \<open>fl\<close> rounds
  the exact result of an arithmetic operation or of a numeric literal to a float. Every
  function below is the function of the same name above with these parameters in place
  of the ASCII tables and with each arithmetic result rounded.
\<close>

record 'c py_runtime =
  str_lower :: "'c list \<Rightarrow> 'c list"
  isspace :: "'c \<Rightarrow> bool"
  word_char :: "'c \<Rightarrow> bool"
  chr :: "char \<Rightarrow> 'c"
  fl :: "rat \<Rightarrow> rat"

definition literal :: "'c py_runtime \<Rightarrow> string \<Rightarrow> 'c list" where
  "literal rt s = map (chr rt) s"

definition strip_py :: "'c py_runtime \<Rightarrow> 'c list \<Rightarrow> 'c list" where
  "strip_py rt s = rev (dropWhile (isspace rt) (rev (dropWhile (isspace rt) s)))"

definition is_terminator_py :: "'c py_runtime \<Rightarrow> 'c \<Rightarrow> bool" where
  "is_terminator_py rt c \<longleftrightarrow> c \<in> set (literal rt ''.!?'')"

fun re_split_py :: "('c \<Rightarrow> bool) \<Rightarrow> 'c list \<Rightarrow> 'c list list" where
  "re_split_py sep [] = [[]]"
| "re_split_py sep (c # cs) =
     (if sep c then
        (case cs of
           [] \<Rightarrow> [[], []]
         | c' # _ \<Rightarrow> if sep c' then re_split_py sep cs else [] # re_split_py sep cs)
      else
        (case re_split_py sep cs of
           [] \<Rightarrow> [[c]]
         | p # ps \<Rightarrow> (c # p) # ps))"

fun re_findall_py :: "('c \<Rightarrow> bool) \<Rightarrow> 'c list \<Rightarrow> 'c list list" where
  "re_findall_py w [] = []"
| "re_findall_py w (c # cs) =
     (if w c then
        (case cs of
           [] \<Rightarrow> [[c]]
         | c' # _ \<Rightarrow>
             if w c' then
               (case re_findall_py w cs of [] \<Rightarrow> [[c]] | x # xs \<Rightarrow> (c # x) # xs)
             else [c] # re_findall_py w cs)
      else re_findall_py w cs)"

definition safe_tokenize_py ::
  "'c py_runtime \<Rightarrow> 'c nltk_env \<Rightarrow> 'c list \<Rightarrow> 'c list list \<times> 'c list list" where
  "safe_tokenize_py rt env text =
     (case (sent_tokenize env (str_lower rt text), word_tokenize env (str_lower rt text)) of
        (Some sentences, Some words) \<Rightarrow> (sentences, words)
      | _ \<Rightarrow>
          (let sentences = re_split_py (is_terminator_py rt) (str_lower rt text);
               sentences = [strip_py rt s. s \<leftarrow> sentences, strip_py rt s \<noteq> []];
               words = re_findall_py (word_char rt) (str_lower rt text)
           in (sentences, words)))"

definition check_category_py ::
  "'c py_runtime \<Rightarrow> string \<Rightarrow> string list \<Rightarrow> 'c list \<Rightarrow> 'c concerning_phrase list" where
  "check_category_py rt category keywords sentence =
     (case first_keyword (map (literal rt) keywords) (str_lower rt sentence) of
        None \<Rightarrow> []
      | Some k \<Rightarrow> [\<lparr>phrase = strip_py rt sentence, type = category, keyword = k\<rparr>])"

definition sentence_phrases_py :: "'c py_runtime \<Rightarrow> 'c list \<Rightarrow> 'c concerning_phrase list" where
  "sentence_phrases_py rt sentence =
     check_category_py rt ''depression'' depression_keywords sentence
     @ check_category_py rt ''anxiety'' anxiety_keywords sentence
     @ check_category_py rt ''stress'' stress_keywords sentence"

definition find_concerning_phrases_py ::
  "'c py_runtime \<Rightarrow> 'c nltk_env \<Rightarrow> 'c list \<Rightarrow> error + 'c concerning_phrase list" where
  "find_concerning_phrases_py rt env text =
     (case sent_tokenize env text of
        None \<Rightarrow> Inl TokenizerError
      | Some sentences \<Rightarrow> Inr (concat (map (sentence_phrases_py rt) sentences)))"

text \<open>The float literals 0.3, 0.2, 0.15 and 0.05 are the roundings of the fractions.\<close>

definition get_overall_assessment_py :: "'c py_runtime \<Rightarrow> rat \<Rightarrow> rat \<Rightarrow> string" where
  "get_overall_assessment_py rt negative_score positive_score =
     (if negative_score \<ge> fl rt (3 / 10) then
        (if positive_score \<ge> fl rt (2 / 10) then
           ''Mixed emotions with significant concerns - consider professional support''
         else
           ''High concern detected - strongly recommend professional help'')
      else if negative_score \<ge> fl rt (15 / 100) then
        (if positive_score \<ge> fl rt (3 / 10) then
           ''Moderate concerns with positive elements - monitor closely''
         else
           ''Moderate concern - consider speaking with someone'')
      else if negative_score \<ge> fl rt (5 / 100) then
        ''Mild concerns detected - practice self-care''
      else
        (if positive_score \<ge> fl rt (2 / 10) then
           ''Positive mental state - keep up the good work!''
         else
           ''Neutral state - maintain healthy habits''))"

definition keyword_count_py :: "'c py_runtime \<Rightarrow> string list \<Rightarrow> 'c list \<Rightarrow> nat" where
  "keyword_count_py rt keywords text =
     sum_list [1. word \<leftarrow> map (literal rt) keywords, contains word (str_lower rt text)]"

text \<open>
  \<^verbatim>\<open>min(count / max(total_words * 0.1, 1), 1)\<close> in floats: the two integers are
  converted, the product and the quotient are rounded; \<^verbatim>\<open>max\<close> and \<^verbatim>\<open>min\<close>
  compare exactly.
\<close>

definition severity_score_py :: "'c py_runtime \<Rightarrow> nat \<Rightarrow> nat \<Rightarrow> rat" where
  "severity_score_py rt cnt total_words =
     min (fl rt (fl rt (of_nat cnt)
                   / max (fl rt (fl rt (of_nat total_words) * fl rt (1 / 10))) 1)) 1"

definition get_severity_py :: "'c py_runtime \<Rightarrow> rat \<Rightarrow> string" where
  "get_severity_py rt s =
     (if s \<ge> fl rt (3 / 10) then ''High''
      else if s \<ge> fl rt (15 / 100) then ''Moderate''
      else if s \<ge> fl rt (5 / 100) then ''Mild''
      else ''Low'')"

text \<open>
  \<^verbatim>\<open>(depression_score + anxiety_score + stress_score) / 3\<close> is evaluated from the
  left, each of the three operations rounding its result.
\<close>

definition analyze_text_py ::
  "'c py_runtime \<Rightarrow> 'c nltk_env \<Rightarrow> 'c list \<Rightarrow> error + 'c analysis_record option" where
  "analyze_text_py rt env text =
     (if strip_py rt text = [] then Inr None
      else
        let sentiment_scores =
              (case polarity_scores env text of Some s \<Rightarrow> s | None \<Rightarrow> neutral_sentiment);
            (sentences, words) = safe_tokenize_py rt env text;
            depression_count = keyword_count_py rt depression_keywords text;
            anxiety_count = keyword_count_py rt anxiety_keywords text;
            stress_count = keyword_count_py rt stress_keywords text;
            positive_count = keyword_count_py rt positive_keywords text;
            total_words = length words;
            depression_score = severity_score_py rt depression_count total_words;
            anxiety_score = severity_score_py rt anxiety_count total_words;
            stress_score = severity_score_py rt stress_count total_words;
            positive_score = severity_score_py rt positive_count total_words
        in
          (case find_concerning_phrases_py rt env text of
             Inl e \<Rightarrow> Inl e
           | Inr phrases \<Rightarrow>
               let overall =
                     fl rt (fl rt (fl rt (depression_score + anxiety_score) + stress_score) / 3);
                   assessment = get_overall_assessment_py rt overall positive_score
               in Inr (Some
                    \<lparr>timestamp = now env,
                     text_field = text,
                     sentiment = sentiment_scores,
                     depression = \<lparr>score = depression_score,
                                   severity = get_severity_py rt depression_score,
                                   count = depression_count\<rparr>,
                     anxiety = \<lparr>score = anxiety_score,
                                severity = get_severity_py rt anxiety_score,
                                count = anxiety_count\<rparr>,
                     stress = \<lparr>score = stress_score,
                               severity = get_severity_py rt stress_score,
                               count = stress_count\<rparr>,
                     positive = \<lparr>score = positive_score,
                                 severity = get_severity_py rt positive_score,
                                 count = positive_count\<rparr>,
                     highlighted_phrases = phrases,
                     overall_assessment = assessment,
                     overall_score = overall\<rparr>)))"

fun handle_event_py ::
  "'c py_runtime \<Rightarrow> 'c analysis_record list \<Rightarrow> 'c event \<Rightarrow> 'c analysis_record list" where
  "handle_event_py rt history (AnalyzeText env user_text) =
     (if strip_py rt user_text \<noteq> [] then
        (case analyze_text_py rt env user_text of
           Inr (Some analysis) \<Rightarrow> history @ [analysis]
         | _ \<Rightarrow> history)
      else history)"
| "handle_event_py rt history ClearHistory = []"
| "handle_event_py rt history Logout = []"

definition run_session_py :: "'c py_runtime \<Rightarrow> 'c event list \<Rightarrow> 'c analysis_record list" where
  "run_session_py rt events = foldl (handle_event_py rt) [] events"

section \<open>Double precision\<close>

text \<open>
  The rounding of a rational to the nearest IEEE double: 53 significant bits, ties to the
  even significand. The exponent is not bounded; no value of the analysis comes near the
  overflow or the subnormal range. \<open>ilog2 x\<close> is the exponent \<open>e\<close> of a positive \<open>x\<close>,
  with \<open>2 powi e \<le> x < 2 powi (e + 1)\<close>.
\<close>

definition round_half_even :: "rat \<Rightarrow> int" where
  "round_half_even q =
     (let f = \<lfloor>q\<rfloor>; r = q - of_int f
      in if r < 1 / 2 then f
         else if r > 1 / 2 then f + 1
         else if even f then f else f + 1)"

definition ilog2 :: "rat \<Rightarrow> int" where
  "ilog2 x =
     (let (p, q) = quotient_of x;
          k = bitlen p - bitlen q
      in if 2 powi k \<le> x then k else k - 1)"

definition round_double :: "rat \<Rightarrow> rat" where
  "round_double x =
     (if x = 0 then 0
      else let u = 2 powi (ilog2 \<bar>x\<bar> - 52)
           in sgn x * of_int (round_half_even (\<bar>x\<bar> / u)) * u)"

section \<open>Concrete runtimes\<close>

text \<open>
  \<open>ascii_exact\<close> is the runtime of the first sections: ASCII tables and exact
  arithmetic. \<open>latin1_double\<close> is the interpreter on texts of code points below 256,
  each character standing for its code point: \<^verbatim>\<open>str.lower\<close> adds 32 to A..Z and to
  the capital letters 0xC0..0xDE other than the multiplication sign 0xD7,
  \<^verbatim>\<open>strip\<close> also removes 0x85 and 0xA0, \<^verbatim>\<open>\w\<close> also matches the Latin-1
  letters and digits, and arithmetic rounds to doubles.
\<close>

definition ascii_exact :: "char py_runtime" where
  "ascii_exact =
     \<lparr>str_lower = lower, isspace = is_space, word_char = is_word_char,
      chr = id, fl = id\<rparr>"

definition latin1_lower_char :: "char \<Rightarrow> char" where
  "latin1_lower_char c =
     (let n = (of_char c :: nat)
      in if (65 \<le> n \<and> n \<le> 90) \<or> (192 \<le> n \<and> n \<le> 222 \<and> n \<noteq> 215)
         then char_of (n + 32) else c)"

definition latin1_isspace :: "char \<Rightarrow> bool" where
  "latin1_isspace c \<longleftrightarrow>
     (of_char c :: nat) \<in> set [9, 10, 11, 12, 13, 28, 29, 30, 31, 32, 133, 160]"

definition latin1_word_char :: "char \<Rightarrow> bool" where
  "latin1_word_char c =
     (let n = (of_char c :: nat)
      in (48 \<le> n \<and> n \<le> 57) \<or> (65 \<le> n \<and> n \<le> 90) \<or> n = 95 \<or> (97 \<le> n \<and> n \<le> 122)
         \<or> n \<in> set [170, 178, 179, 181, 185, 186, 188, 189, 190]
         \<or> (192 \<le> n \<and> n \<noteq> 215 \<and> n \<noteq> 247))"

definition latin1_double :: "char py_runtime" where
  "latin1_double =
     \<lparr>str_lower = map latin1_lower_char, isspace = latin1_isspace,
      word_char = latin1_word_char, chr = (\<lambda>c. c), fl = round_double\<rparr>"

section \<open>Definitions used to state the properties\<close>

text \<open>
  The order of the severity bands, Low below Mild below Moderate below High, as a number.
\<close>

definition severity_rank :: "string \<Rightarrow> nat" where
  "severity_rank band =
     (if band = ''Low'' then 0
      else if band = ''Mild'' then 1
      else if band = ''Moderate'' then 2
      else if band = ''High'' then 3
      else 4)"

text \<open>
  The decision table as the specification prints it, read top to bottom with the first
  matching row winning. Its strings are written with an em dash (U+2014), given here by
  its three UTF-8 bytes.
\<close>

definition em_dash :: string where
  "em_dash = [CHR 0xE2, CHR 0x80, CHR 0x94]"

definition spec_assessment_table :: "rat \<Rightarrow> rat \<Rightarrow> string" where
  "spec_assessment_table overall positive_score =
     (if overall \<ge> 30 / 100 \<and> positive_score \<ge> 20 / 100 then
        ''Mixed emotions with significant concerns '' @ em_dash @ '' consider professional support''
      else if overall \<ge> 30 / 100 then
        ''High concern detected '' @ em_dash @ '' strongly recommend professional help''
      else if overall \<ge> 15 / 100 \<and> positive_score \<ge> 30 / 100 then
        ''Moderate concerns with positive elements '' @ em_dash @ '' monitor closely''
      else if overall \<ge> 15 / 100 then
        ''Moderate concern '' @ em_dash @ '' consider speaking with someone''
      else if overall \<ge> 5 / 100 then
        ''Mild concerns detected '' @ em_dash @ '' practice self-care''
      else if positive_score \<ge> 20 / 100 then
        ''Positive mental state '' @ em_dash @ '' keep up the good work!''
      else
        ''Neutral state '' @ em_dash @ '' maintain healthy habits'')"

text \<open>
  Two concrete environments for running the model. In \<open>plain_env\<close> the sentence
  tokenizer returns the text as one sentence, the word tokenizer returns the runs of word
  characters and the sentiment scorer raises. In \<open>offline_env\<close> the NLTK data is
  missing: every library call raises.
\<close>

definition plain_env :: "char nltk_env" where
  "plain_env =
     \<lparr>sent_tokenize = (\<lambda>t. Some [t]),
      word_tokenize = (\<lambda>t. Some (re_findall_words t)),
      polarity_scores = (\<lambda>t. None),
      now = ''2024-01-01 12:00:00''\<rparr>"

definition offline_env :: "char nltk_env" where
  "offline_env =
     \<lparr>sent_tokenize = (\<lambda>t. None),
      word_tokenize = (\<lambda>t. None),
      polarity_scores = (\<lambda>t. None),
      now = ''2024-01-01 12:00:00''\<rparr>"

section \<open>Substring containment and lowercasing\<close>

lemma contains_iff_sublist: "contains k s \<longleftrightarrow> sublist k s"
  by (induction s) (auto simp: sublist_Cons_right)

lemma lower_append: "lower (a @ b) = lower a @ lower b"
  by (simp add: lower_def)

lemma contains_append: "contains k s \<Longrightarrow> contains k (s @ t)"
  unfolding contains_iff_sublist by (metis sublist_appendI append.assoc sublist_def)

lemma keyword_count_eq:
  "keyword_count kws t = length (filter (\<lambda>w. contains w (lower t)) kws)"
  unfolding keyword_count_def by (induction kws) auto

lemma keyword_count_mono: "keyword_count kws t \<le> keyword_count kws (t @ u)"
  unfolding keyword_count_def by (induction kws) (auto simp: lower_append contains_append)

section \<open>The keyword counts\<close>

text \<open>
  C10. Appending any text to the input never lowers a keyword count: for each of the four
  categories the count of the extended text is at least the count of the original text.
\<close>

theorem keyword_count_suffix_mono:
  "keyword_count depression_keywords text \<le> keyword_count depression_keywords (text @ extra)
   \<and> keyword_count anxiety_keywords text \<le> keyword_count anxiety_keywords (text @ extra)
   \<and> keyword_count stress_keywords text \<le> keyword_count stress_keywords (text @ extra)
   \<and> keyword_count positive_keywords text \<le> keyword_count positive_keywords (text @ extra)"
  by (simp add: keyword_count_mono)

theorem keyword_count_suffix_mono_witness:
  "keyword_count anxiety_keywords ''I am sad'' = 0
   \<and> keyword_count anxiety_keywords (''I am sad'' @ '' and worried'') = 2
   \<and> keyword_count depression_keywords ''I am sad'' = 1
   \<and> keyword_count depression_keywords (''I am sad'' @ '' and worried'') = 1"
proof -
  have e: "keyword_count anxiety_keywords ''I am sad'' = 0"
    "keyword_count anxiety_keywords (''I am sad'' @ '' and worried'') = 2"
    "keyword_count depression_keywords ''I am sad'' = 1"
    "keyword_count depression_keywords (''I am sad'' @ '' and worried'') = 1"
    by code_simp+
  from keyword_count_suffix_mono [of "''I am sad''" "'' and worried''"] e
  show ?thesis by simp
qed

text \<open>
  The score of a category can still fall when text is appended, since the number of
  words grows: one keyword in ten words scores 1, the same keyword in twenty words 1/2.
\<close>

lemma score_may_decrease: "severity_score 1 20 < severity_score 1 10"
  by (simp add: severity_score_def)

text \<open>
  C2. The count is the number of list entries found in the lowercased text, and the
  anxiety list holds the entry \<open>worried\<close> twice: on the text \<open>I am worried\<close> the only
  keyword of the list that occurs is \<open>worried\<close>, and the anxiety count is 2.
\<close>

theorem anxiety_count_worried_twice:
  "keyword_count anxiety_keywords ''I am worried'' = 2
   \<and> [w \<leftarrow> remdups anxiety_keywords. contains w (lower ''I am worried'')] = [''worried'']"
  by code_simp

section \<open>Severity bands\<close>

text \<open>
  C4. \<open>get_severity\<close> maps a score of at least 0.30 to High, a score in [0.15, 0.30) to
  Moderate, a score in [0.05, 0.15) to Mild and any lower score to Low; the result is
  always one of the four bands, and a larger score never gets a lower band.
\<close>

theorem get_severity_bands:
  "(3 / 10 \<le> s \<longrightarrow> get_severity s = ''High'')
   \<and> (15 / 100 \<le> s \<and> s < 3 / 10 \<longrightarrow> get_severity s = ''Moderate'')
   \<and> (5 / 100 \<le> s \<and> s < 15 / 100 \<longrightarrow> get_severity s = ''Mild'')
   \<and> (s < 5 / 100 \<longrightarrow> get_severity s = ''Low'')
   \<and> get_severity s \<in> {''Low'', ''Mild'', ''Moderate'', ''High''}
   \<and> (s \<le> t \<longrightarrow> severity_rank (get_severity s) \<le> severity_rank (get_severity t))"
  unfolding get_severity_def severity_rank_def by auto

theorem get_severity_bands_witness:
  "get_severity (3 / 10) = ''High'' \<and> get_severity (15 / 100) = ''Moderate''
   \<and> get_severity (5 / 100) = ''Mild'' \<and> get_severity 0 = ''Low''
   \<and> severity_rank (get_severity (5 / 100)) \<le> severity_rank (get_severity (3 / 10))"
  using get_severity_bands [of "3 / 10" 1] get_severity_bands [of "15 / 100" 1]
    get_severity_bands [of "5 / 100" "3 / 10"] get_severity_bands [of 0 1]
  by (simp add: get_severity_def severity_rank_def)

section \<open>Failure of the sentence tokenizer\<close>

text \<open>
  C7. When the NLTK data is missing, \<open>safe_tokenize\<close> falls back to the regular
  expressions, but \<open>find_concerning_phrases\<close> calls \<open>sent_tokenize\<close> unguarded: the
  analysis of a non-blank text ends in the exception and returns no record.
\<close>

theorem analyze_text_tokenizer_failure:
  "safe_tokenize offline_env ''I feel sad'' = ([''i feel sad''], [''i'', ''feel'', ''sad''])
   \<and> find_concerning_phrases offline_env ''I feel sad'' = Inl TokenizerError
   \<and> analyze_text offline_env ''I feel sad'' = Inl TokenizerError"
  by code_simp

section \<open>Phrase extraction\<close>

lemma first_keyword_None: "first_keyword kws s = None \<longleftrightarrow> (\<forall>k\<in>set kws. \<not> contains k s)"
  by (induction kws) auto

lemma first_keyword_Some:
  "first_keyword kws s = Some k \<Longrightarrow>
     \<exists>pre post. kws = pre @ k # post \<and> contains k s \<and> (\<forall>k'\<in>set pre. \<not> contains k' s)"
proof (induction kws)
  case Nil
  then show ?case by simp
next
  case (Cons a kws)
  show ?case
  proof (cases "contains a s")
    case True
    with Cons.prems have "a = k" by simp
    with True have "a # kws = [] @ k # kws \<and> contains k s \<and> (\<forall>k'\<in>set []. \<not> contains k' s)"
      by simp
    then show ?thesis by blast
  next
    case False
    with Cons.prems have "first_keyword kws s = Some k" by simp
    from Cons.IH[OF this] obtain pre post where
      "kws = pre @ k # post" "contains k s" "\<forall>k'\<in>set pre. \<not> contains k' s" by blast
    with False have "a # kws = (a # pre) @ k # post \<and> contains k s
        \<and> (\<forall>k'\<in>set (a # pre). \<not> contains k' s)" by simp
    then show ?thesis by blast
  qed
qed

lemma first_keyword_mem: "first_keyword kws s = Some k \<Longrightarrow> k \<in> set kws"
  by (induction kws) (auto split: if_splits)

lemma check_category_cases:
  "check_category c kws s = [] \<and> (\<forall>k\<in>set kws. \<not> contains k (lower s))
   \<or> (\<exists>k. check_category c kws s = [\<lparr>phrase = strip s, type = c, keyword = k\<rparr>]
          \<and> first_keyword kws (lower s) = Some k)"
proof (cases "first_keyword kws (lower s)")
  case None
  then have "check_category c kws s = []" by (simp add: check_category_def)
  moreover from None have "\<forall>k\<in>set kws. \<not> contains k (lower s)"
    by (simp only: first_keyword_None)
  ultimately show ?thesis by blast
next
  case (Some k)
  then have "check_category c kws s = [\<lparr>phrase = strip s, type = c, keyword = k\<rparr>]"
    by (simp add: check_category_def)
  with Some show ?thesis by blast
qed

lemma filter_check_category:
  "filter (\<lambda>p. type p = c') (check_category c kws s) =
     (if c' = c then check_category c kws s else [])"
  using check_category_cases[of c kws s] by auto

lemma length_check_category:
  "length (check_category c kws s) = (if \<exists>k\<in>set kws. contains k (lower s) then 1 else 0)"
proof -
  from check_category_cases[of c kws s] show ?thesis
  proof (elim disjE exE conjE)
    assume "check_category c kws s = []" "\<forall>k\<in>set kws. \<not> contains k (lower s)"
    then show ?thesis by simp
  next
    fix k
    assume a: "check_category c kws s = [\<lparr>phrase = strip s, type = c, keyword = k\<rparr>]"
      and b: "first_keyword kws (lower s) = Some k"
    from first_keyword_Some[OF b] first_keyword_mem[OF b]
    have "\<exists>k\<in>set kws. contains k (lower s)" by blast
    with a show ?thesis by simp
  qed
qed

lemma check_category_first:
  assumes "p \<in> set (check_category c kws s)"
  shows "type p = c \<and> phrase p = strip s
    \<and> (\<exists>pre post. kws = pre @ keyword p # post \<and> contains (keyword p) (lower s)
          \<and> (\<forall>k'\<in>set pre. \<not> contains k' (lower s)))"
proof -
  from check_category_cases[of c kws s] assms obtain k where
    a: "check_category c kws s = [\<lparr>phrase = strip s, type = c, keyword = k\<rparr>]"
    and b: "first_keyword kws (lower s) = Some k"
    by auto
  from a assms have p: "p = \<lparr>phrase = strip s, type = c, keyword = k\<rparr>" by simp
  from first_keyword_Some[OF b] p show ?thesis by simp
qed

lemma subseq_types:
  "subseq (map type (sentence_phrases s)) [''depression'', ''anxiety'', ''stress'']"
  unfolding sentence_phrases_def
  using check_category_cases[of "''depression''" depression_keywords s]
        check_category_cases[of "''anxiety''" anxiety_keywords s]
        check_category_cases[of "''stress''" stress_keywords s]
  by (elim disjE exE conjE) simp_all

lemma three_checks_length:
  assumes "distinct [c1, c2, c3]" "(c, kws) \<in> set [(c1, k1), (c2, k2), (c3, k3)]"
  shows "length [p \<leftarrow> check_category c1 k1 s @ check_category c2 k2 s @ check_category c3 k3 s.
                   type p = c]
         = (if \<exists>k\<in>set kws. contains k (lower s) then 1 else 0)"
proof -
  from assms(1) have d: "c1 \<noteq> c2" "c2 \<noteq> c1" "c1 \<noteq> c3" "c3 \<noteq> c1" "c2 \<noteq> c3" "c3 \<noteq> c2"
    by auto
  from assms(2) consider "c = c1" "kws = k1" | "c = c2" "kws = k2" | "c = c3" "kws = k3"
    by auto
  then show ?thesis
  proof cases
    case 1
    with d show ?thesis
      by (simp add: filter_check_category length_check_category)
  next
    case 2
    with d show ?thesis
      by (simp add: filter_check_category length_check_category)
  next
    case 3
    with d show ?thesis
      by (simp add: filter_check_category length_check_category)
  qed
qed

lemma three_checks_first:
  assumes "distinct [c1, c2, c3]" "(c, kws) \<in> set [(c1, k1), (c2, k2), (c3, k3)]"
    and "p \<in> set (check_category c1 k1 s @ check_category c2 k2 s @ check_category c3 k3 s)"
    and "type p = c"
  shows "phrase p = strip s
    \<and> (\<exists>pre post. kws = pre @ keyword p # post \<and> contains (keyword p) (lower s)
          \<and> (\<forall>k'\<in>set pre. \<not> contains k' (lower s)))"
proof -
  from assms(3) consider "p \<in> set (check_category c1 k1 s)"
    | "p \<in> set (check_category c2 k2 s)" | "p \<in> set (check_category c3 k3 s)"
    by auto
  then show ?thesis
  proof cases
    case 1
    note f = check_category_first[OF 1]
    with assms(4) have "c = c1" by simp
    with assms(1,2) have "kws = k1" by auto
    with f show ?thesis by simp
  next
    case 2
    note f = check_category_first[OF 2]
    with assms(4) have "c = c2" by simp
    with assms(1,2) have "kws = k2" by auto
    with f show ?thesis by simp
  next
    case 3
    note f = check_category_first[OF 3]
    with assms(4) have "c = c3" by simp
    with assms(1,2) have "kws = k3" by auto
    with f show ?thesis by simp
  qed
qed

lemma category_names_distinct: "distinct [''depression'', ''anxiety'', ''stress'']"
  by simp

lemma find_concerning_phrases_Inr:
  "find_concerning_phrases env text = Inr phrases \<longleftrightarrow>
     (\<exists>sentences. sent_tokenize env text = Some sentences
         \<and> phrases = concat (map sentence_phrases sentences))"
  unfolding find_concerning_phrases_def by (auto split: option.splits)

text \<open>
  C1 (as the code has it). The three category loops of a sentence are independent: for
  each of depression, anxiety and stress the sentence contributes one phrase if some
  keyword of that category occurs in the lowercased sentence and none otherwise, so a
  sentence yields between zero and three phrases, in the order depression, anxiety,
  stress. The phrase of a category carries the stripped sentence and the first keyword of
  that category's list, in list order, that occurs in the lowercased sentence. The result
  of \<open>find_concerning_phrases\<close> is the concatenation of these over the sentences.
\<close>

theorem sentence_phrases_per_category:
  "(\<forall>(c, kws) \<in> set [(''depression'', depression_keywords), (''anxiety'', anxiety_keywords),
                     (''stress'', stress_keywords)].
      length [p \<leftarrow> sentence_phrases s. type p = c]
         = (if \<exists>k\<in>set kws. contains k (lower s) then 1 else 0)
      \<and> (\<forall>p\<in>set (sentence_phrases s). type p = c \<longrightarrow>
            phrase p = strip s
            \<and> (\<exists>pre post. kws = pre @ keyword p # post \<and> contains (keyword p) (lower s)
                  \<and> (\<forall>k'\<in>set pre. \<not> contains k' (lower s)))))
   \<and> subseq (map type (sentence_phrases s)) [''depression'', ''anxiety'', ''stress'']
   \<and> (find_concerning_phrases env text = Inr phrases \<longrightarrow>
        (\<exists>sentences. sent_tokenize env text = Some sentences
            \<and> phrases = concat (map sentence_phrases sentences)))"
proof (intro conjI)
  show "\<forall>(c, kws) \<in> set [(''depression'', depression_keywords), (''anxiety'', anxiety_keywords),
                     (''stress'', stress_keywords)].
      length [p \<leftarrow> sentence_phrases s. type p = c]
         = (if \<exists>k\<in>set kws. contains k (lower s) then 1 else 0)
      \<and> (\<forall>p\<in>set (sentence_phrases s). type p = c \<longrightarrow>
            phrase p = strip s
            \<and> (\<exists>pre post. kws = pre @ keyword p # post \<and> contains (keyword p) (lower s)
                  \<and> (\<forall>k'\<in>set pre. \<not> contains k' (lower s))))"
  proof (rule ballI, rule case_prodI2, intro conjI ballI impI)
    fix x c kws
    assume "x \<in> set [(''depression'', depression_keywords), (''anxiety'', anxiety_keywords),
                     (''stress'', stress_keywords)]" "x = (c, kws)"
    then have m: "(c, kws) \<in> set [(''depression'', depression_keywords),
        (''anxiety'', anxiety_keywords), (''stress'', stress_keywords)]" by (simp only:)
    show "length [p \<leftarrow> sentence_phrases s. type p = c]
         = (if \<exists>k\<in>set kws. contains k (lower s) then 1 else 0)"
      unfolding sentence_phrases_def
      by (rule three_checks_length[OF category_names_distinct m])
    fix p assume p: "p \<in> set (sentence_phrases s)" "type p = c"
    note f = three_checks_first[OF category_names_distinct m p(1)[unfolded sentence_phrases_def] p(2)]
    from f show "phrase p = strip s" by (rule conjunct1)
    from f show "\<exists>pre post. kws = pre @ keyword p # post \<and> contains (keyword p) (lower s)
                  \<and> (\<forall>k'\<in>set pre. \<not> contains k' (lower s))" by (rule conjunct2)
  qed
  show "subseq (map type (sentence_phrases s)) [''depression'', ''anxiety'', ''stress'']"
    by (rule subseq_types)
  show "find_concerning_phrases env text = Inr phrases \<longrightarrow>
        (\<exists>sentences. sent_tokenize env text = Some sentences
            \<and> phrases = concat (map sentence_phrases sentences))"
    by (simp add: find_concerning_phrases_Inr)
qed


theorem sentence_phrases_per_category_witness:
  "length [p \<leftarrow> sentence_phrases ''I feel sad and worried.''. type p = ''depression''] = 1
   \<and> length [p \<leftarrow> sentence_phrases ''I feel sad and worried.''. type p = ''anxiety''] = 1
   \<and> length [p \<leftarrow> sentence_phrases ''I feel sad and worried.''. type p = ''stress''] = 0
   \<and> find_concerning_phrases plain_env ''I feel sad and worried.'' =
        Inr [\<lparr>phrase = ''I feel sad and worried.'', type = ''depression'', keyword = ''sad''\<rparr>,
             \<lparr>phrase = ''I feel sad and worried.'', type = ''anxiety'', keyword = ''worried''\<rparr>]"
proof -
  have e: "sentence_phrases ''I feel sad and worried.'' =
     [\<lparr>phrase = ''I feel sad and worried.'', type = ''depression'', keyword = ''sad''\<rparr>,
      \<lparr>phrase = ''I feel sad and worried.'', type = ''anxiety'', keyword = ''worried''\<rparr>]"
    by code_simp
  have f: "find_concerning_phrases plain_env ''I feel sad and worried.'' =
     Inr [\<lparr>phrase = ''I feel sad and worried.'', type = ''depression'', keyword = ''sad''\<rparr>,
          \<lparr>phrase = ''I feel sad and worried.'', type = ''anxiety'', keyword = ''worried''\<rparr>]"
    by code_simp
  from sentence_phrases_per_category [of "''I feel sad and worried.''" plain_env
      "''I feel sad and worried.''"
      "[\<lparr>phrase = ''I feel sad and worried.'', type = ''depression'', keyword = ''sad''\<rparr>,
        \<lparr>phrase = ''I feel sad and worried.'', type = ''anxiety'', keyword = ''worried''\<rparr>]"]
    e f
  show ?thesis by simp
qed

text \<open>
  C1 as stated fails: a sentence with a depression keyword and an anxiety keyword
  contributes two phrases.
\<close>

theorem one_phrase_per_sentence_counterexample:
  "sentence_phrases ''I feel sad and worried.'' =
     [\<lparr>phrase = ''I feel sad and worried.'', type = ''depression'', keyword = ''sad''\<rparr>,
      \<lparr>phrase = ''I feel sad and worried.'', type = ''anxiety'', keyword = ''worried''\<rparr>]
   \<and> \<not> length (sentence_phrases ''I feel sad and worried.'') \<le> 1"
  by code_simp

lemma positive_keywords_disjoint:
  "k \<in> set depression_keywords \<union> set anxiety_keywords \<union> set stress_keywords
     \<Longrightarrow> k \<notin> set positive_keywords"
  unfolding depression_keywords_def anxiety_keywords_def stress_keywords_def
    positive_keywords_def
  by (elim UnE) auto

lemma check_category_keyword:
  "p \<in> set (check_category c kws s) \<Longrightarrow> type p = c \<and> keyword p \<in> set kws"
  using check_category_first[of p c kws s] by auto

lemma sentence_phrases_negative:
  assumes "p \<in> set (sentence_phrases s)"
  shows "type p \<in> {''depression'', ''anxiety'', ''stress''}
    \<and> keyword p \<in> set depression_keywords \<union> set anxiety_keywords \<union> set stress_keywords"
  using assms unfolding sentence_phrases_def
  by (auto dest: check_category_keyword)

text \<open>
  C8. No phrase returned by \<open>find_concerning_phrases\<close> has the type \<open>positive\<close>: every
  phrase is tagged depression, anxiety or stress, its keyword comes from one of these
  three lists, and none of their entries is a positive keyword.
\<close>

theorem no_positive_phrases:
  "find_concerning_phrases env text = Inr phrases \<Longrightarrow>
     \<forall>p\<in>set phrases.
        type p \<noteq> ''positive''
        \<and> type p \<in> {''depression'', ''anxiety'', ''stress''}
        \<and> keyword p \<in> set depression_keywords \<union> set anxiety_keywords \<union> set stress_keywords
        \<and> keyword p \<notin> set positive_keywords"
proof
  fix p
  assume a: "find_concerning_phrases env text = Inr phrases" and p: "p \<in> set phrases"
  from a obtain sentences where "phrases = concat (map sentence_phrases sentences)"
    by (auto simp: find_concerning_phrases_Inr)
  with p obtain s where "p \<in> set (sentence_phrases s)" by auto
  from sentence_phrases_negative[OF this] positive_keywords_disjoint[of "keyword p"]
  show "type p \<noteq> ''positive''
        \<and> type p \<in> {''depression'', ''anxiety'', ''stress''}
        \<and> keyword p \<in> set depression_keywords \<union> set anxiety_keywords \<union> set stress_keywords
        \<and> keyword p \<notin> set positive_keywords"
    by auto
qed

theorem no_positive_phrases_witness:
  "find_concerning_phrases plain_env ''I feel sad and worried.'' =
     Inr [\<lparr>phrase = ''I feel sad and worried.'', type = ''depression'', keyword = ''sad''\<rparr>,
          \<lparr>phrase = ''I feel sad and worried.'', type = ''anxiety'', keyword = ''worried''\<rparr>]
   \<and> ''sad'' \<notin> set positive_keywords \<and> ''worried'' \<notin> set positive_keywords"
proof -
  have f: "find_concerning_phrases plain_env ''I feel sad and worried.'' =
     Inr [\<lparr>phrase = ''I feel sad and worried.'', type = ''depression'', keyword = ''sad''\<rparr>,
          \<lparr>phrase = ''I feel sad and worried.'', type = ''anxiety'', keyword = ''worried''\<rparr>]"
    by code_simp
  from no_positive_phrases [OF f] f show ?thesis by simp
qed

section \<open>Scores, assessment and history\<close>

lemma severity_score_bounds: "0 \<le> severity_score c n \<and> severity_score c n \<le> 1"
  unfolding severity_score_def by (simp add: max_def min_def)


lemma analyze_text_SomeD:
  assumes "analyze_text env text = Inr (Some r)"
  shows "strip text \<noteq> []"
    and "depression r =
      \<lparr>score = severity_score (keyword_count depression_keywords text)
                 (length (snd (safe_tokenize env text))),
       severity = get_severity (severity_score (keyword_count depression_keywords text)
                 (length (snd (safe_tokenize env text)))),
       count = keyword_count depression_keywords text\<rparr>"
    and "anxiety r =
      \<lparr>score = severity_score (keyword_count anxiety_keywords text)
                 (length (snd (safe_tokenize env text))),
       severity = get_severity (severity_score (keyword_count anxiety_keywords text)
                 (length (snd (safe_tokenize env text)))),
       count = keyword_count anxiety_keywords text\<rparr>"
    and "stress r =
      \<lparr>score = severity_score (keyword_count stress_keywords text)
                 (length (snd (safe_tokenize env text))),
       severity = get_severity (severity_score (keyword_count stress_keywords text)
                 (length (snd (safe_tokenize env text)))),
       count = keyword_count stress_keywords text\<rparr>"
    and "positive r =
      \<lparr>score = severity_score (keyword_count positive_keywords text)
                 (length (snd (safe_tokenize env text))),
       severity = get_severity (severity_score (keyword_count positive_keywords text)
                 (length (snd (safe_tokenize env text)))),
       count = keyword_count positive_keywords text\<rparr>"
    and "overall_score r = (score (depression r) + score (anxiety r) + score (stress r)) / 3"
    and "overall_assessment r = get_overall_assessment (overall_score r) (score (positive r))"
    and "find_concerning_phrases env text = Inr (highlighted_phrases r)"
    and "sentiment r = (case polarity_scores env text of Some s \<Rightarrow> s | None \<Rightarrow> neutral_sentiment)"
    and "text_field r = text" and "timestamp r = now env"
  using assms unfolding analyze_text_def
  by (auto simp: Let_def split: if_splits sum.splits prod.splits)









text \<open>
  C6 (as the code has it). \<open>get_overall_assessment\<close> follows the decision table row by
  row, with the thresholds of the specification; its seven strings are those of the
  table with an ASCII hyphen where the table prints an em dash.
\<close>

theorem assessment_decision_table:
  "(3 / 10 \<le> overall \<and> 2 / 10 \<le> p \<longrightarrow> get_overall_assessment overall p =
       ''Mixed emotions with significant concerns - consider professional support'')
   \<and> (3 / 10 \<le> overall \<and> p < 2 / 10 \<longrightarrow> get_overall_assessment overall p =
       ''High concern detected - strongly recommend professional help'')
   \<and> (15 / 100 \<le> overall \<and> overall < 3 / 10 \<and> 3 / 10 \<le> p \<longrightarrow>
       get_overall_assessment overall p =
       ''Moderate concerns with positive elements - monitor closely'')
   \<and> (15 / 100 \<le> overall \<and> overall < 3 / 10 \<and> p < 3 / 10 \<longrightarrow>
       get_overall_assessment overall p =
       ''Moderate concern - consider speaking with someone'')
   \<and> (5 / 100 \<le> overall \<and> overall < 15 / 100 \<longrightarrow> get_overall_assessment overall p =
       ''Mild concerns detected - practice self-care'')
   \<and> (overall < 5 / 100 \<and> 2 / 10 \<le> p \<longrightarrow> get_overall_assessment overall p =
       ''Positive mental state - keep up the good work!'')
   \<and> (overall < 5 / 100 \<and> p < 2 / 10 \<longrightarrow> get_overall_assessment overall p =
       ''Neutral state - maintain healthy habits'')"
  unfolding get_overall_assessment_def by simp

theorem assessment_decision_table_witness:
  "get_overall_assessment (3 / 10) (2 / 10) =
       ''Mixed emotions with significant concerns - consider professional support''
   \<and> get_overall_assessment (3 / 10) 0 =
       ''High concern detected - strongly recommend professional help''
   \<and> get_overall_assessment (15 / 100) (3 / 10) =
       ''Moderate concerns with positive elements - monitor closely''
   \<and> get_overall_assessment (15 / 100) 0 =
       ''Moderate concern - consider speaking with someone''
   \<and> get_overall_assessment (5 / 100) 1 = ''Mild concerns detected - practice self-care''
   \<and> get_overall_assessment 0 (2 / 10) = ''Positive mental state - keep up the good work!''
   \<and> get_overall_assessment 0 0 = ''Neutral state - maintain healthy habits''"
  using assessment_decision_table [of "3 / 10" "2 / 10"] assessment_decision_table [of "3 / 10" 0]
    assessment_decision_table [of "15 / 100" "3 / 10"] assessment_decision_table [of "15 / 100" 0]
    assessment_decision_table [of "5 / 100" 1] assessment_decision_table [of 0 "2 / 10"]
    assessment_decision_table [of 0 0]
  by (simp add: get_overall_assessment_def)

text \<open>
  C6 as stated fails: for an overall score of 0.30 and a positive score of 0.20 the
  string of the specification's table, written with an em dash, is not the string the
  code returns.
\<close>

theorem assessment_strings_counterexample:
  "spec_assessment_table (3 / 10) (2 / 10) =
     ''Mixed emotions with significant concerns '' @ em_dash @ '' consider professional support''
   \<and> get_overall_assessment (3 / 10) (2 / 10) =
     ''Mixed emotions with significant concerns - consider professional support''
   \<and> get_overall_assessment (3 / 10) (2 / 10) \<noteq> spec_assessment_table (3 / 10) (2 / 10)"
  by (simp add: spec_assessment_table_def get_overall_assessment_def em_dash_def)


lemma plain_env_sad:
  "analyze_text plain_env ''i feel sad'' = Inr (Some
     \<lparr>timestamp = ''2024-01-01 12:00:00'', text_field = ''i feel sad'',
       sentiment = \<lparr>compound = 0, neg = 0, neu = 1, pos = 0\<rparr>,
       depression = \<lparr>score = 1, severity = ''High'', count = 1\<rparr>,
       anxiety = \<lparr>score = 0, severity = ''Low'', count = 0\<rparr>,
       stress = \<lparr>score = 0, severity = ''Low'', count = 0\<rparr>,
       positive = \<lparr>score = 0, severity = ''Low'', count = 0\<rparr>,
       highlighted_phrases =
         [\<lparr>phrase = ''i feel sad'', type = ''depression'', keyword = ''sad''\<rparr>],
       overall_assessment = ''High concern detected - strongly recommend professional help'',
       overall_score = 1 / 3\<rparr>)"
  by code_simp



text \<open>
  C3. In every record returned by \<open>analyze_text\<close>, each category's count is the keyword
  count of that category's list, its score is
  \<open>min (count / max (total_words * 0.1) 1) 1\<close> with \<open>total_words\<close> the number of word
  tokens, and the score lies between 0 and 1. The bound holds for every count and every
  number of words, zero words included.
\<close>

theorem severity_score_formula:
  "(analyze_text env text = Inr (Some r) \<longrightarrow>
      (\<forall>(category, kws) \<in> set [(depression, depression_keywords),
            (anxiety, anxiety_keywords), (stress, stress_keywords),
            (positive, positive_keywords)].
          count (category r) = keyword_count kws text
          \<and> score (category r) =
              min (of_nat (count (category r))
                     / max (of_nat (length (snd (safe_tokenize env text))) * (1 / 10)) 1) 1
          \<and> 0 \<le> score (category r) \<and> score (category r) \<le> 1))
   \<and> 0 \<le> severity_score c n \<and> severity_score c n \<le> 1"
proof -
  have "count (category r) = keyword_count kws text
          \<and> score (category r) =
              min (of_nat (count (category r))
                     / max (of_nat (length (snd (safe_tokenize env text))) * (1 / 10)) 1) 1
          \<and> 0 \<le> score (category r) \<and> score (category r) \<le> 1"
    if a: "analyze_text env text = Inr (Some r)"
      and m: "(category, kws) \<in> set [(depression, depression_keywords),
            (anxiety, anxiety_keywords), (stress, stress_keywords),
            (positive, positive_keywords)]" for category kws
  proof -
    from m consider "category = depression" "kws = depression_keywords"
      | "category = anxiety" "kws = anxiety_keywords"
      | "category = stress" "kws = stress_keywords"
      | "category = positive" "kws = positive_keywords"
      by auto
    then have e: "category r =
      \<lparr>score = severity_score (keyword_count kws text)
                 (length (snd (safe_tokenize env text))),
       severity = get_severity (severity_score (keyword_count kws text)
                 (length (snd (safe_tokenize env text)))),
       count = keyword_count kws text\<rparr>"
      by cases (simp_all only: analyze_text_SomeD(2-5)[OF a])
    have c: "count (category r) = keyword_count kws text" by (simp add: e)
    have s: "score (category r) = severity_score (keyword_count kws text)
                 (length (snd (safe_tokenize env text)))" by (simp add: e)
    from severity_score_bounds[of "keyword_count kws text"
        "length (snd (safe_tokenize env text))"] c s
    show ?thesis by (simp add: severity_score_def)
  qed
  with severity_score_bounds[of c n] show ?thesis by blast
qed

theorem severity_score_formula_witness:
  "analyze_text plain_env ''i feel sad'' = Inr (Some
     \<lparr>timestamp = ''2024-01-01 12:00:00'', text_field = ''i feel sad'',
       sentiment = \<lparr>compound = 0, neg = 0, neu = 1, pos = 0\<rparr>,
       depression = \<lparr>score = 1, severity = ''High'', count = 1\<rparr>,
       anxiety = \<lparr>score = 0, severity = ''Low'', count = 0\<rparr>,
       stress = \<lparr>score = 0, severity = ''Low'', count = 0\<rparr>,
       positive = \<lparr>score = 0, severity = ''Low'', count = 0\<rparr>,
       highlighted_phrases =
         [\<lparr>phrase = ''i feel sad'', type = ''depression'', keyword = ''sad''\<rparr>],
       overall_assessment = ''High concern detected - strongly recommend professional help'',
       overall_score = 1 / 3\<rparr>)
   \<and> keyword_count depression_keywords ''i feel sad'' = 1
   \<and> length (snd (safe_tokenize plain_env ''i feel sad'')) = 3
   \<and> severity_score 1 3 = 1 \<and> severity_score 300 1 = 1 \<and> severity_score 0 0 = 0"
proof -
  have k: "keyword_count depression_keywords ''i feel sad'' = 1" by code_simp
  have w: "length (snd (safe_tokenize plain_env ''i feel sad'')) = 3" by code_simp
  have v: "severity_score 1 3 = 1 \<and> severity_score 300 1 = 1 \<and> severity_score 0 0 = 0"
    by (simp add: severity_score_def)
  from severity_score_formula [of plain_env "''i feel sad''"
      "\<lparr>timestamp = ''2024-01-01 12:00:00'', text_field = ''i feel sad'',
       sentiment = \<lparr>compound = 0, neg = 0, neu = 1, pos = 0\<rparr>,
       depression = \<lparr>score = 1, severity = ''High'', count = 1\<rparr>,
       anxiety = \<lparr>score = 0, severity = ''Low'', count = 0\<rparr>,
       stress = \<lparr>score = 0, severity = ''Low'', count = 0\<rparr>,
       positive = \<lparr>score = 0, severity = ''Low'', count = 0\<rparr>,
       highlighted_phrases =
         [\<lparr>phrase = ''i feel sad'', type = ''depression'', keyword = ''sad''\<rparr>],
       overall_assessment = ''High concern detected - strongly recommend professional help'',
       overall_score = 1 / 3\<rparr>" 300 1]
    plain_env_sad k w v
  show ?thesis by simp
qed





end
